theory Spec2Isabelle
  imports Complex_Main
begin

section \<open>JavaScript numbers\<close>

text \<open>
  The functions of \<^verbatim>\<open>src/services/statistics.js\<close> compute on JavaScript Numbers.
  A Number is modelled as a finite value, one of the two infinities, or NaN, so that
  division by zero, \<^verbatim>\<open>Infinity - Infinity\<close> and the comparisons with NaN behave as
  they do in the language. Two things are idealised: a finite value is a real number
  and finite arithmetic is exact (no rounding, no overflow to an infinity), and the two
  zeros are one value (the comparisons \<^verbatim>\<open><\<close> and \<^verbatim>\<open>===\<close> of the language do not tell
  them apart). Where the engine rounds a finite result to a double, or overflows, the
  value in this theory is the real number that the same operation denotes; the
  operations applied, their operands and their order are those of the source.
\<close>

datatype jsnum = Num real | PosInf | NegInf | NaN

fun js_neg :: "jsnum \<Rightarrow> jsnum" where
  "js_neg (Num x) = Num (- x)"
| "js_neg PosInf = NegInf"
| "js_neg NegInf = PosInf"
| "js_neg NaN = NaN"

fun js_add :: "jsnum \<Rightarrow> jsnum \<Rightarrow> jsnum" where
  "js_add NaN _ = NaN"
| "js_add _ NaN = NaN"
| "js_add (Num x) (Num y) = Num (x + y)"
| "js_add PosInf NegInf = NaN"
| "js_add NegInf PosInf = NaN"
| "js_add PosInf _ = PosInf"
| "js_add _ PosInf = PosInf"
| "js_add NegInf _ = NegInf"
| "js_add _ NegInf = NegInf"

definition js_sub :: "jsnum \<Rightarrow> jsnum \<Rightarrow> jsnum" where
  "js_sub a b = js_add a (js_neg b)"

text \<open>The infinity with the sign of a non-zero real, and NaN for zero.\<close>

definition signed_inf :: "real \<Rightarrow> jsnum" where
  "signed_inf s = (if s = 0 then NaN else if 0 < s then PosInf else NegInf)"

fun js_mul :: "jsnum \<Rightarrow> jsnum \<Rightarrow> jsnum" where
  "js_mul NaN _ = NaN"
| "js_mul _ NaN = NaN"
| "js_mul (Num x) (Num y) = Num (x * y)"
| "js_mul (Num x) PosInf = signed_inf x"
| "js_mul (Num x) NegInf = signed_inf (- x)"
| "js_mul PosInf (Num y) = signed_inf y"
| "js_mul NegInf (Num y) = signed_inf (- y)"
| "js_mul PosInf PosInf = PosInf"
| "js_mul NegInf NegInf = PosInf"
| "js_mul PosInf NegInf = NegInf"
| "js_mul NegInf PosInf = NegInf"

fun js_div :: "jsnum \<Rightarrow> jsnum \<Rightarrow> jsnum" where
  "js_div NaN _ = NaN"
| "js_div _ NaN = NaN"
| "js_div (Num x) (Num y) = (if y = 0 then signed_inf x else Num (x / y))"
| "js_div (Num x) _ = Num 0"
| "js_div PosInf (Num y) = (if 0 \<le> y then PosInf else NegInf)"
| "js_div NegInf (Num y) = (if 0 \<le> y then NegInf else PosInf)"
| "js_div _ _ = NaN"

text \<open>The comparisons \<^verbatim>\<open><\<close> and \<^verbatim>\<open>===\<close>: both are false as soon as one side is NaN.\<close>

fun js_lt :: "jsnum \<Rightarrow> jsnum \<Rightarrow> bool" where
  "js_lt NaN _ = False"
| "js_lt _ NaN = False"
| "js_lt (Num x) (Num y) = (x < y)"
| "js_lt NegInf NegInf = False"
| "js_lt NegInf _ = True"
| "js_lt PosInf _ = False"
| "js_lt (Num x) PosInf = True"
| "js_lt (Num x) NegInf = False"

fun js_seq :: "jsnum \<Rightarrow> jsnum \<Rightarrow> bool" where
  "js_seq (Num x) (Num y) = (x = y)"
| "js_seq PosInf PosInf = True"
| "js_seq NegInf NegInf = True"
| "js_seq _ _ = False"

subsection \<open>The functions of \<^verbatim>\<open>Math\<close> that the module calls\<close>

text \<open>
  On finite arguments they are the real functions; outside their domain, and on the
  infinities and NaN, they return what the language prescribes.
\<close>

fun Math_abs :: "jsnum \<Rightarrow> jsnum" where
  "Math_abs (Num x) = Num \<bar>x\<bar>"
| "Math_abs PosInf = PosInf"
| "Math_abs NegInf = PosInf"
| "Math_abs NaN = NaN"

fun Math_sqrt :: "jsnum \<Rightarrow> jsnum" where
  "Math_sqrt (Num x) = (if x < 0 then NaN else Num (sqrt x))"
| "Math_sqrt PosInf = PosInf"
| "Math_sqrt NegInf = NaN"
| "Math_sqrt NaN = NaN"

text \<open>\<^verbatim>\<open>Math.pow(v, 2)\<close>, the only use of \<^verbatim>\<open>Math.pow\<close> in the module.\<close>

definition Math_pow2 :: "jsnum \<Rightarrow> jsnum" where
  "Math_pow2 v = js_mul v v"

fun Math_exp :: "jsnum \<Rightarrow> jsnum" where
  "Math_exp (Num x) = Num (exp x)"
| "Math_exp PosInf = PosInf"
| "Math_exp NegInf = Num 0"
| "Math_exp NaN = NaN"

fun Math_log :: "jsnum \<Rightarrow> jsnum" where
  "Math_log (Num x) = (if x < 0 then NaN else if x = 0 then NegInf else Num (ln x))"
| "Math_log PosInf = PosInf"
| "Math_log NegInf = NaN"
| "Math_log NaN = NaN"

fun Math_sin :: "jsnum \<Rightarrow> jsnum" where
  "Math_sin (Num x) = Num (sin x)"
| "Math_sin _ = NaN"

definition Math_PI :: jsnum where
  "Math_PI = Num pi"

section \<open>Descriptive statistics\<close>

text \<open>
  \<^verbatim>\<open>arr.reduce((sum, val) => sum + val, 0)\<close> folds from the left, starting at 0; with
  its initial value given it is defined on the empty array too.
\<close>

definition reduce_sum :: "jsnum list \<Rightarrow> jsnum" where
  "reduce_sum arr = foldl (\<lambda>sum val. js_add sum val) (Num 0) arr"

definition mean :: "jsnum list \<Rightarrow> jsnum" where
  "mean arr =
     (if length arr = 0 then Num 0
      else js_div (reduce_sum arr) (Num (real (length arr))))"

definition standardDeviation :: "jsnum list \<Rightarrow> jsnum" where
  "standardDeviation arr =
     (if length arr < 2 then Num 0
      else
        let avg = mean arr;
            squaredDiffs = map (\<lambda>val. Math_pow2 (js_sub val avg)) arr;
            variance = js_div (reduce_sum squaredDiffs) (js_sub (Num (real (length arr))) (Num 1))
        in Math_sqrt variance)"

section \<open>Log-gamma (Lanczos approximation)\<close>

definition lanczos_g :: nat where
  "lanczos_g = 7"

definition lanczos_c :: "jsnum list" where
  "lanczos_c =
     [Num 0.99999999999980993, Num 676.5203681218851, Num (- 1259.1392167224028),
      Num 771.32342877765313, Num (- 176.61502916214059), Num 12.507343278686905,
      Num (- 0.13857109526572012), Num 0.0000099843695780195716,
      Num 0.00000015056327351493116]"

text \<open>
  \<^verbatim>\<open>c[i]\<close>: an index outside the array reads \<^verbatim>\<open>undefined\<close>, which arithmetic turns
  into NaN.
\<close>

definition c_at :: "nat \<Rightarrow> jsnum" where
  "c_at i = (if i < length lanczos_c then lanczos_c ! i else NaN)"

text \<open>
  The part of \<^verbatim>\<open>gammaLn\<close> after the reflection test (lines 166 to 173): the Lanczos
  series, summed by the loop \<^verbatim>\<open>for (let i = 1; i < g + 2; i++)\<close>, and the closing
  formula.
\<close>

definition gammaLn_series :: "jsnum \<Rightarrow> jsnum" where
  "gammaLn_series z0 =
     (let z = js_sub z0 (Num 1);
          x = foldl (\<lambda>x i. js_add x (js_div (c_at i) (js_add z (Num (real i)))))
                (c_at 0) [1 ..< lanczos_g + 2];
          t = js_add (js_add z (Num (real lanczos_g))) (Num 0.5)
      in js_add
           (js_sub
              (js_add (js_mul (Num 0.5) (Math_log (js_mul (Num 2) Math_PI)))
                      (js_mul (js_add z (Num 0.5)) (Math_log t)))
              t)
           (Math_log x))"

text \<open>
  \<^verbatim>\<open>gammaLn\<close> itself: the reflection branch for \<^verbatim>\<open>z < 0.5\<close> calls the function again
  at \<^verbatim>\<open>1 - z\<close>. The measure of the termination proof is 1 on the reflection branch and
  0 on the other.
\<close>

function gammaLn :: "jsnum \<Rightarrow> jsnum" where
  "gammaLn z =
     (if js_lt z (Num 0.5)
      then js_sub (Math_log (js_div Math_PI (Math_sin (js_mul Math_PI z))))
                  (gammaLn (js_sub (Num 1) z))
      else gammaLn_series z)"
  by pat_completeness auto
termination
proof (relation "measure (\<lambda>z. if js_lt z (Num 0.5) then 1 else 0)")
  show "wf (measure (\<lambda>z. if js_lt z (Num 0.5) then 1 else (0::nat)))"
    by simp
next
  fix z
  assume "js_lt z (Num 0.5)"
  then show "(js_sub (Num 1) z, z) \<in> measure (\<lambda>z. if js_lt z (Num 0.5) then 1 else (0::nat))"
    by (cases z) (simp_all add: js_sub_def)
qed

text \<open>The number of nested calls that \<^verbatim>\<open>gammaLn z\<close> makes to itself.\<close>

function gammaLn_depth :: "jsnum \<Rightarrow> nat" where
  "gammaLn_depth z =
     (if js_lt z (Num 0.5) then Suc (gammaLn_depth (js_sub (Num 1) z)) else 0)"
  by pat_completeness auto
termination
proof (relation "measure (\<lambda>z. if js_lt z (Num 0.5) then 1 else 0)")
  show "wf (measure (\<lambda>z. if js_lt z (Num 0.5) then 1 else (0::nat)))"
    by simp
next
  fix z
  assume "js_lt z (Num 0.5)"
  then show "(js_sub (Num 1) z, z) \<in> measure (\<lambda>z. if js_lt z (Num 0.5) then 1 else (0::nat))"
    by (cases z) (simp_all add: js_sub_def)
qed

section \<open>Continued fraction for the incomplete beta function\<close>

definition maxIterations :: nat where
  "maxIterations = 100"

definition epsilon :: jsnum where
  "epsilon = Num (1 / 10 ^ 10)"

text \<open>The statement \<^verbatim>\<open>if (Math.abs(v) < epsilon) v = epsilon;\<close> as a function of \<open>v\<close>.\<close>

definition floor_eps :: "jsnum \<Rightarrow> jsnum" where
  "floor_eps v = (if js_lt (Math_abs v) epsilon then epsilon else v)"

text \<open>
  The variables \<^verbatim>\<open>c\<close>, \<^verbatim>\<open>d\<close> and \<^verbatim>\<open>h\<close> that the loop of \<^verbatim>\<open>betaCF\<close> updates, with three
  logs that the source does not keep: \<open>cf_clamped\<close> lists, for every execution of a
  statement \<^verbatim>\<open>if (Math.abs(v) < epsilon) v = epsilon;\<close>, the value of \<^verbatim>\<open>v\<close> before and
  after it; \<open>cf_divisors\<close> lists, in order, every value of \<^verbatim>\<open>c\<close> or \<^verbatim>\<open>d\<close> that a division
  has divided by (\<^verbatim>\<open>1 / d\<close> and \<^verbatim>\<open>aa / c\<close>); and \<open>cf_dels\<close> lists the value of \<^verbatim>\<open>del\<close> of
  every iteration that has run.
\<close>

record cf_state =
  cf_c :: jsnum
  cf_d :: jsnum
  cf_h :: jsnum
  cf_clamped :: "(jsnum \<times> jsnum) list"
  cf_divisors :: "jsnum list"
  cf_dels :: "jsnum list"

text \<open>Lines 112 to 121: the state before the loop.\<close>

definition betaCF_init :: "jsnum \<Rightarrow> jsnum \<Rightarrow> jsnum \<Rightarrow> cf_state" where
  "betaCF_init x a b =
     (let qab = js_add a b;
          qap = js_add a (Num 1);
          r0 = js_sub (Num 1) (js_div (js_mul qab x) qap);
          d0 = floor_eps r0;
          d = js_div (Num 1) d0
      in \<lparr>cf_c = Num 1, cf_d = d, cf_h = d, cf_clamped = [(r0, d0)], cf_divisors = [d0],
          cf_dels = []\<rparr>)"

text \<open>Lines 124 to 143: one iteration of the loop, an even step and an odd step.\<close>

definition betaCF_iteration :: "nat \<Rightarrow> jsnum \<Rightarrow> jsnum \<Rightarrow> jsnum \<Rightarrow> cf_state \<Rightarrow> cf_state" where
  "betaCF_iteration i x a b s =
     (let qab = js_add a b;
          qap = js_add a (Num 1);
          qam = js_sub a (Num 1);
          m2 = js_mul (Num 2) (Num (real i));
          aa = js_div (js_mul (js_mul (Num (real i)) (js_sub b (Num (real i)))) x)
                      (js_mul (js_add qam m2) (js_add a m2));
          r1 = js_add (Num 1) (js_mul aa (cf_d s));
          d1 = floor_eps r1;
          r2 = js_add (Num 1) (js_div aa (cf_c s));
          c1 = floor_eps r2;
          d2 = js_div (Num 1) d1;
          h1 = js_mul (cf_h s) (js_mul d2 c1);
          aa' = js_div (js_mul (js_mul (js_neg (js_add a (Num (real i)))) (js_add qab (Num (real i)))) x)
                       (js_mul (js_add a m2) (js_add qap m2));
          r3 = js_add (Num 1) (js_mul aa' d2);
          d3 = floor_eps r3;
          r4 = js_add (Num 1) (js_div aa' c1);
          c2 = floor_eps r4;
          d4 = js_div (Num 1) d3;
          del = js_mul d4 c2;
          h2 = js_mul h1 del
      in \<lparr>cf_c = c2, cf_d = d4, cf_h = h2,
          cf_clamped = cf_clamped s @ [(r1, d1), (r2, c1), (r3, d3), (r4, c2)],
          cf_divisors = cf_divisors s @ [cf_c s, d1, c1, d3],
          cf_dels = cf_dels s @ [del]\<rparr>)"

text \<open>The test of line 145 on the \<^verbatim>\<open>del\<close> of the iteration that has just run.\<close>

definition converged :: "jsnum \<Rightarrow> bool" where
  "converged del = js_lt (Math_abs (js_sub del (Num 1))) epsilon"

text \<open>
  The loop \<^verbatim>\<open>for (let i = 1; i <= maxIterations; i++) { ...; if (...) break; }\<close>
  from the iteration numbered \<open>i\<close> on.
\<close>

function betaCF_loop :: "nat \<Rightarrow> jsnum \<Rightarrow> jsnum \<Rightarrow> jsnum \<Rightarrow> cf_state \<Rightarrow> cf_state" where
  "betaCF_loop i x a b s =
     (if i \<le> maxIterations
      then (let s' = betaCF_iteration i x a b s
            in if converged (last (cf_dels s')) then s' else betaCF_loop (i + 1) x a b s')
      else s)"
  by pat_completeness auto
termination
  by (relation "measure (\<lambda>(i, x, a, b, s). Suc maxIterations - i)") auto

definition betaCF_run :: "jsnum \<Rightarrow> jsnum \<Rightarrow> jsnum \<Rightarrow> cf_state" where
  "betaCF_run x a b = betaCF_loop 1 x a b (betaCF_init x a b)"

definition betaCF :: "jsnum \<Rightarrow> jsnum \<Rightarrow> jsnum \<Rightarrow> jsnum" where
  "betaCF x a b = cf_h (betaCF_run x a b)"

section \<open>Regularized incomplete beta function and Student-t CDF\<close>

definition incompleteBeta :: "jsnum \<Rightarrow> jsnum \<Rightarrow> jsnum \<Rightarrow> jsnum" where
  "incompleteBeta x a b =
     (if js_seq x (Num 0) then Num 0
      else if js_seq x (Num 1) then Num 1
      else
        let bt = Math_exp
                   (js_add
                      (js_add
                         (js_sub (js_sub (gammaLn (js_add a b)) (gammaLn a)) (gammaLn b))
                         (js_mul a (Math_log x)))
                      (js_mul b (Math_log (js_sub (Num 1) x))))
        in if js_lt x (js_div (js_add a (Num 1)) (js_add (js_add a b) (Num 2)))
           then js_div (js_mul bt (betaCF x a b)) a
           else js_sub (Num 1) (js_div (js_mul bt (betaCF (js_sub (Num 1) x) b a)) b))"

definition tCDF :: "jsnum \<Rightarrow> jsnum \<Rightarrow> jsnum" where
  "tCDF t df =
     (let x = js_div df (js_add df (js_mul t t))
      in js_sub (Num 1) (js_mul (Num 0.5) (incompleteBeta x (js_div df (Num 2)) (Num 0.5))))"

section \<open>Welch's t-test\<close>

record TestResult =
  mean1 :: jsnum
  mean2 :: jsnum
  std1 :: jsnum
  std2 :: jsnum
  tStatistic :: jsnum
  degreesOfFreedom :: jsnum
  pValue :: jsnum
  isSignificant :: bool
  effectSize :: jsnum

definition independentTTest :: "jsnum list \<Rightarrow> jsnum list \<Rightarrow> TestResult" where
  "independentTTest sample1 sample2 =
     (let n1 = Num (real (length sample1));
          n2 = Num (real (length sample2));
          m1 = mean sample1;
          m2 = mean sample2;
          s1 = standardDeviation sample1;
          s2 = standardDeviation sample2;
          var1 = js_mul s1 s1;
          var2 = js_mul s2 s2;
          se = Math_sqrt (js_add (js_div var1 n1) (js_div var2 n2));
          t = js_div (js_sub m1 m2) se;
          numerator = Math_pow2 (js_add (js_div var1 n1) (js_div var2 n2));
          denominator =
            js_add (js_div (Math_pow2 (js_div var1 n1)) (js_sub n1 (Num 1)))
                   (js_div (Math_pow2 (js_div var2 n2)) (js_sub n2 (Num 1)));
          df = js_div numerator denominator;
          p = js_mul (Num 2) (js_sub (Num 1) (tCDF (Math_abs t) df))
      in \<lparr>mean1 = m1, mean2 = m2, std1 = s1, std2 = s2, tStatistic = t,
          degreesOfFreedom = df, pValue = p, isSignificant = js_lt p (Num 0.05),
          effectSize = js_div (js_sub m1 m2) (Math_sqrt (js_div (js_add var1 var2) (Num 2)))\<rparr>)"

text \<open>
  The function declares two parameters. A call with a third argument binds the first
  two and drops the third, as every JavaScript call with surplus arguments does.
\<close>

definition independentTTest_3 :: "jsnum list \<Rightarrow> jsnum list \<Rightarrow> jsnum \<Rightarrow> TestResult" where
  "independentTTest_3 sample1 sample2 alpha = independentTTest sample1 sample2"

section \<open>Notions used in the statements\<close>




text \<open>The recursive equations are unfolded by hand in the proofs, not by the simplifier.\<close>

declare gammaLn.simps [simp del] gammaLn_depth.simps [simp del] betaCF_loop.simps [simp del]

section \<open>Properties of the descriptive statistics\<close>

text \<open>
  C8. \<^verbatim>\<open>mean\<close> returns 0 for the empty sequence and otherwise the sum of the sequence
  divided by its length; \<^verbatim>\<open>standardDeviation\<close> returns 0 for every sequence shorter
  than 2 and otherwise the square root of the sum of the squared deviations from the
  mean divided by \<open>n - 1\<close>. The sums, the quotients and the square root are those of
  the arithmetic of Numbers, for every sequence of Numbers.
\<close>

theorem C8_mean_standardDeviation:
  "mean [] = Num 0
   \<and> (xs \<noteq> [] \<longrightarrow> mean xs = js_div (reduce_sum xs) (Num (real (length xs))))
   \<and> (length xs < 2 \<longrightarrow> standardDeviation xs = Num 0)
   \<and> (2 \<le> length xs \<longrightarrow>
        standardDeviation xs =
          Math_sqrt (js_div (reduce_sum (map (\<lambda>x. Math_pow2 (js_sub x (mean xs))) xs))
                            (js_sub (Num (real (length xs))) (Num 1))))"
  by (simp add: mean_def standardDeviation_def Let_def)

theorem C8_witness:
  "mean [] = Num 0
   \<and> mean [Num 1, Num 2, Num 3] = Num 2
   \<and> standardDeviation [Num 5] = Num 0
   \<and> standardDeviation [Num 1, Num 2, Num 3] = Num 1
   \<and> standardDeviation [PosInf, Num 1] = NaN"
proof -
  have "mean [Num 1, Num 2, Num 3] = Num 2 \<and> standardDeviation [Num 1, Num 2, Num 3] = Num 1"
    using C8_mean_standardDeviation [of "[Num 1, Num 2, Num 3]"]
    by (simp add: reduce_sum_def js_sub_def Math_pow2_def)
  moreover have "standardDeviation [Num 5] = Num 0"
    using C8_mean_standardDeviation [of "[Num 5]"] by simp
  moreover have "standardDeviation [PosInf, Num 1] = NaN"
    using C8_mean_standardDeviation [of "[PosInf, Num 1]"]
    by (simp add: reduce_sum_def js_sub_def Math_pow2_def)
  ultimately show ?thesis
    using C8_mean_standardDeviation [of "[]"] by simp
qed

section \<open>Boundary values of the incomplete beta function\<close>

text \<open>
  C9. \<^verbatim>\<open>incompleteBeta(0, a, b)\<close> is exactly 0 and \<^verbatim>\<open>incompleteBeta(1, a, b)\<close> is exactly
  1: the two tests on \<open>x\<close> return before the prefactor with its logarithms of \<open>x\<close> and
  \<open>1 - x\<close> and its calls of \<^verbatim>\<open>gammaLn\<close> is computed. This holds for every \<open>a\<close> and \<open>b\<close>,
  in particular for the positive ones.
\<close>

theorem C9_boundary:
  "incompleteBeta (Num 0) a b = Num 0 \<and> incompleteBeta (Num 1) a b = Num 1"
  by (simp add: incompleteBeta_def)

section \<open>The recursion of the log-gamma function\<close>

lemma reflect_once: "js_lt z (Num 0.5) \<Longrightarrow> js_lt (Num 0.5) (js_sub (Num 1) z)"
  by (cases z) (simp_all add: js_sub_def)

lemma js_lt_asym: "js_lt a b \<Longrightarrow> \<not> js_lt b a"
  by (cases a; cases b) simp_all

text \<open>
  C10. \<^verbatim>\<open>gammaLn\<close> returns on every input (it is a total function, by the termination
  proof at its definition), and it calls itself at most once: the reflection branch is
  taken only for \<^verbatim>\<open>z < 0.5\<close>, its call is at \<^verbatim>\<open>1 - z\<close>, which is greater than 0.5, and
  that call returns the value of the series without another call.
\<close>

theorem C10_gammaLn:
  "gammaLn_depth z \<le> 1
   \<and> (js_lt z (Num 0.5) \<longrightarrow>
        js_lt (Num 0.5) (js_sub (Num 1) z)
        \<and> gammaLn z = js_sub (Math_log (js_div Math_PI (Math_sin (js_mul Math_PI z))))
                        (gammaLn_series (js_sub (Num 1) z)))
   \<and> (\<not> js_lt z (Num 0.5) \<longrightarrow> gammaLn z = gammaLn_series z)"
proof (cases "js_lt z (Num 0.5)")
  case True
  then have up: "js_lt (Num 0.5) (js_sub (Num 1) z)" by (rule reflect_once)
  then have no: "\<not> js_lt (js_sub (Num 1) z) (Num 0.5)" by (rule js_lt_asym)
  have "gammaLn_depth z = Suc (gammaLn_depth (js_sub (Num 1) z))"
    using True by (subst gammaLn_depth.simps) simp
  also have "gammaLn_depth (js_sub (Num 1) z) = 0"
    using no by (subst gammaLn_depth.simps) simp
  finally have d: "gammaLn_depth z \<le> 1" by simp
  have "gammaLn (js_sub (Num 1) z) = gammaLn_series (js_sub (Num 1) z)"
    using no by (subst gammaLn.simps) simp
  then have "gammaLn z = js_sub (Math_log (js_div Math_PI (Math_sin (js_mul Math_PI z))))
                        (gammaLn_series (js_sub (Num 1) z))"
    using True by (subst gammaLn.simps) simp
  with d up True show ?thesis by simp
next
  case False
  then have "gammaLn_depth z = 0" by (subst gammaLn_depth.simps) simp
  moreover have "gammaLn z = gammaLn_series z" using False by (subst gammaLn.simps) simp
  ultimately show ?thesis using False by simp
qed

theorem C10_witness:
  "gammaLn_depth (Num 0) \<le> 1
   \<and> js_lt (Num 0) (Num 0.5)
   \<and> js_lt (Num 0.5) (js_sub (Num 1) (Num 0))
   \<and> gammaLn (Num 0) = js_sub (Math_log (js_div Math_PI (Math_sin (js_mul Math_PI (Num 0)))))
                        (gammaLn_series (js_sub (Num 1) (Num 0)))
   \<and> \<not> js_lt (Num 2) (Num 0.5)
   \<and> gammaLn (Num 2) = gammaLn_series (Num 2)"
  using C10_gammaLn [of "Num 0"] C10_gammaLn [of "Num 2"]
  by (simp add: js_sub_def)

section \<open>Degenerate samples and the significance threshold\<close>

lemma js_add_NaN [simp]: "js_add a NaN = NaN"
  by (cases a) simp_all

lemma js_mul_NaN [simp]: "js_mul a NaN = NaN"
  by (cases a) simp_all

lemma js_div_NaN [simp]: "js_div a NaN = NaN"
  by (cases a) simp_all

lemma js_lt_NaN [simp]: "js_lt a NaN = False"
  by (cases a) simp_all

lemma tCDF_NaN: "tCDF t NaN = NaN"
  by (simp add: tCDF_def incompleteBeta_def Let_def js_sub_def)

lemma df_NaN_left:
  "length s1 = 1 \<Longrightarrow> degreesOfFreedom (independentTTest s1 s2) = NaN"
  by (simp add: independentTTest_def Let_def standardDeviation_def Math_pow2_def js_sub_def
        signed_inf_def)

lemma df_NaN_right:
  "length s2 = 1 \<Longrightarrow> degreesOfFreedom (independentTTest s1 s2) = NaN"
  by (simp add: independentTTest_def Let_def standardDeviation_def Math_pow2_def js_sub_def
        signed_inf_def)

lemma pValue_unfold:
  "pValue (independentTTest s1 s2) =
     js_mul (Num 2) (js_sub (Num 1)
       (tCDF (Math_abs (tStatistic (independentTTest s1 s2)))
             (degreesOfFreedom (independentTTest s1 s2))))"
  by (simp add: independentTTest_def Let_def)

lemma isSignificant_unfold:
  "isSignificant (independentTTest s1 s2) = js_lt (pValue (independentTTest s1 s2)) (Num 0.05)"
  by (simp add: independentTTest_def Let_def)

text \<open>
  C5. The functions of the module are total functions on Numbers: the source has no
  \<^verbatim>\<open>throw\<close>, its two \<^verbatim>\<open>reduce\<close> calls are given an initial value, and a division by zero
  yields an infinity or NaN. In particular, when either sample has exactly one element,
  the degrees-of-freedom computation divides 0 by \<open>n - 1 = 0\<close>, so that
  \<^verbatim>\<open>degreesOfFreedom\<close> is NaN, and the NaN propagates: \<^verbatim>\<open>pValue\<close> is NaN and
  \<^verbatim>\<open>isSignificant\<close> is false.
\<close>

theorem C5_single_element_sample:
  assumes "length s1 = 1 \<or> length s2 = 1"
  shows "degreesOfFreedom (independentTTest s1 s2) = NaN
         \<and> pValue (independentTTest s1 s2) = NaN
         \<and> isSignificant (independentTTest s1 s2) = False"
proof -
  from assms have df: "degreesOfFreedom (independentTTest s1 s2) = NaN"
    using df_NaN_left df_NaN_right by blast
  then have p: "pValue (independentTTest s1 s2) = NaN"
    by (simp add: pValue_unfold tCDF_NaN js_sub_def)
  then show ?thesis using df by (simp add: isSignificant_unfold)
qed

theorem C5_witness:
  "degreesOfFreedom (independentTTest [Num 7] [Num 5, Num 6]) = NaN
   \<and> pValue (independentTTest [Num 7] [Num 5, Num 6]) = NaN
   \<and> isSignificant (independentTTest [Num 7] [Num 5, Num 6]) = False"
  using C5_single_element_sample [of "[Num 7]" "[Num 5, Num 6]"] by simp

text \<open>
  Two equal samples with a positive variance: the t-statistic is 0, so the argument of
  the incomplete beta function is exactly 1 and the p-value is exactly 1.
\<close>

lemma mean_024: "mean [Num 0, Num 2, Num 4] = Num 2"
  by (simp add: mean_def reduce_sum_def)

lemma sd_024: "standardDeviation [Num 0, Num 2, Num 4] = Num 2"
  by (simp add: standardDeviation_def mean_024 reduce_sum_def Math_pow2_def js_sub_def)

lemma ttest_024:
  "tStatistic (independentTTest [Num 0, Num 2, Num 4] [Num 0, Num 2, Num 4]) = Num 0"
  "degreesOfFreedom (independentTTest [Num 0, Num 2, Num 4] [Num 0, Num 2, Num 4]) = Num 4"
  by (simp_all add: independentTTest_def Let_def mean_024 sd_024 Math_pow2_def js_sub_def)

lemma pValue_024:
  "pValue (independentTTest [Num 0, Num 2, Num 4] [Num 0, Num 2, Num 4]) = Num 1"
  by (simp add: pValue_unfold ttest_024 tCDF_def incompleteBeta_def js_sub_def)

text \<open>
  C2 as stated fails: the function has no parameter \<^verbatim>\<open>alpha\<close>. Called with the third
  argument 2 on two samples whose p-value is 1, it returns \<^verbatim>\<open>isSignificant = false\<close>,
  although the p-value is less than that argument.
\<close>

theorem C2_counterexample:
  "\<not> isSignificant (independentTTest_3 [Num 0, Num 2, Num 4] [Num 0, Num 2, Num 4] (Num 2))
   \<and> js_lt (pValue (independentTTest_3 [Num 0, Num 2, Num 4] [Num 0, Num 2, Num 4] (Num 2))) (Num 2)"
  by (simp add: independentTTest_3_def isSignificant_unfold pValue_024)

text \<open>
  C2, amended. \<^verbatim>\<open>independentTTest\<close> takes the two samples only; a third argument
  changes nothing in the result, and for every pair of samples \<^verbatim>\<open>isSignificant\<close> equals
  \<^verbatim>\<open>pValue < 0.05\<close>, the threshold written in the source.
\<close>

theorem C2_fixed_threshold:
  "independentTTest_3 sample1 sample2 alpha = independentTTest sample1 sample2
   \<and> isSignificant (independentTTest_3 sample1 sample2 alpha) =
       js_lt (pValue (independentTTest_3 sample1 sample2 alpha)) (Num 0.05)"
  by (simp add: independentTTest_3_def isSignificant_unfold)

section \<open>Order of the computed CDF\<close>










section \<open>The loop of the continued fraction\<close>














section \<open>The formulas of the t-test\<close>

text \<open>
  C4. For every pair of samples, with \<open>var1\<close> and \<open>var2\<close> the squares of the two
  standard deviations, \<^verbatim>\<open>tStatistic\<close> is \<open>(mean1 - mean2) / sqrt (var1/n1 + var2/n2)\<close>,
  \<^verbatim>\<open>degreesOfFreedom\<close> is the Welch-Satterthwaite quotient
  \<open>(var1/n1 + var2/n2)\<^sup>2 / ((var1/n1)\<^sup>2/(n1-1) + (var2/n2)\<^sup>2/(n2-1))\<close> and \<^verbatim>\<open>effectSize\<close> is
  \<open>(mean1 - mean2) / sqrt ((var1 + var2)/2)\<close>, each operation being the operation of
  the arithmetic of Numbers.
\<close>

theorem C4_formulas:
  "(let n1 = Num (real (length s1)); n2 = Num (real (length s2));
        var1 = Math_pow2 (standardDeviation s1); var2 = Math_pow2 (standardDeviation s2);
        r = independentTTest s1 s2
    in tStatistic r =
         js_div (js_sub (mean s1) (mean s2)) (Math_sqrt (js_add (js_div var1 n1) (js_div var2 n2)))
       \<and> degreesOfFreedom r =
         js_div (Math_pow2 (js_add (js_div var1 n1) (js_div var2 n2)))
                (js_add (js_div (Math_pow2 (js_div var1 n1)) (js_sub n1 (Num 1)))
                        (js_div (Math_pow2 (js_div var2 n2)) (js_sub n2 (Num 1))))
       \<and> effectSize r =
         js_div (js_sub (mean s1) (mean s2)) (Math_sqrt (js_div (js_add var1 var2) (Num 2))))"
  by (simp add: independentTTest_def Let_def Math_pow2_def)

section \<open>Symmetry of the t-test\<close>

lemma js_add_commute: "js_add a b = js_add b a"
  by (cases a; cases b) simp_all

lemma js_neg_sub: "js_neg (js_sub a b) = js_sub b a"
  by (cases a; cases b) (simp_all add: js_sub_def)

lemma js_div_neg: "js_div (js_neg a) b = js_neg (js_div a b)"
  by (cases a; cases b) (simp_all add: signed_inf_def)

lemma Math_abs_neg: "Math_abs (js_neg a) = Math_abs a"
  by (cases a) simp_all

lemma js_seq_refl: "a \<noteq> NaN \<Longrightarrow> js_seq a a"
  by (cases a) simp_all

lemma mean_135: "mean [Num 1, Num 3, Num 5] = Num 3"
  by (simp add: mean_def reduce_sum_def)

lemma sd_135: "standardDeviation [Num 1, Num 3, Num 5] = Num 2"
  by (simp add: standardDeviation_def mean_135 reduce_sum_def Math_pow2_def js_sub_def)

lemma tStatistic_024_135:
  "tStatistic (independentTTest [Num 0, Num 2, Num 4] [Num 1, Num 3, Num 5]) = Num (- 1 / sqrt (8 / 3))"
  by (simp add: independentTTest_def Let_def mean_024 sd_024 mean_135 sd_135 js_sub_def)

text \<open>
  C1. For every pair of samples \<open>A\<close> and \<open>B\<close>, the \<^verbatim>\<open>tStatistic\<close> of
  \<^verbatim>\<open>independentTTest(A, B)\<close> is the negation of the \<^verbatim>\<open>tStatistic\<close> of
  \<^verbatim>\<open>independentTTest(B, A)\<close>, and the two results have the same \<^verbatim>\<open>pValue\<close> and the
  same \<^verbatim>\<open>isSignificant\<close>. Equality is identity of the Number: where one result is
  NaN the other is NaN too. The comparison \<^verbatim>\<open>===\<close> of the language, false on NaN,
  confirms the two equalities wherever the value is not NaN.
\<close>

theorem C1_symmetry:
  "tStatistic (independentTTest A B) = js_neg (tStatistic (independentTTest B A))
   \<and> pValue (independentTTest A B) = pValue (independentTTest B A)
   \<and> isSignificant (independentTTest A B) = isSignificant (independentTTest B A)
   \<and> (tStatistic (independentTTest A B) \<noteq> NaN \<longrightarrow>
        js_seq (tStatistic (independentTTest A B)) (js_neg (tStatistic (independentTTest B A))))
   \<and> (pValue (independentTTest A B) \<noteq> NaN \<longrightarrow>
        js_seq (pValue (independentTTest A B)) (pValue (independentTTest B A)))"
proof -
  let ?u = "js_div (js_mul (standardDeviation A) (standardDeviation A)) (Num (real (length A)))"
  let ?v = "js_div (js_mul (standardDeviation B) (standardDeviation B)) (Num (real (length B)))"
  have t: "tStatistic (independentTTest A B) = js_neg (tStatistic (independentTTest B A))"
    by (simp add: independentTTest_def Let_def js_add_commute [of ?u ?v]
          js_div_neg [symmetric] js_neg_sub)
  have df: "degreesOfFreedom (independentTTest A B) = degreesOfFreedom (independentTTest B A)"
    by (simp add: independentTTest_def Let_def js_add_commute [of ?u ?v]
        js_add_commute [of "js_div (Math_pow2 ?u) (js_sub (Num (real (length A))) (Num 1))"])
  have p: "pValue (independentTTest A B) = pValue (independentTTest B A)"
    by (simp only: pValue_unfold [of A B] pValue_unfold [of B A] df t Math_abs_neg)
  have s: "isSignificant (independentTTest A B) = isSignificant (independentTTest B A)"
    by (simp only: isSignificant_unfold p)
  have "tStatistic (independentTTest A B) \<noteq> NaN \<longrightarrow>
        js_seq (tStatistic (independentTTest A B)) (js_neg (tStatistic (independentTTest B A)))"
    using js_seq_refl [of "tStatistic (independentTTest A B)"] t by simp
  moreover have "pValue (independentTTest A B) \<noteq> NaN \<longrightarrow>
        js_seq (pValue (independentTTest A B)) (pValue (independentTTest B A))"
    using js_seq_refl [of "pValue (independentTTest A B)"] p by simp
  ultimately show ?thesis using t p s by simp
qed

theorem C1_witness:
  "js_seq (tStatistic (independentTTest [Num 0, Num 2, Num 4] [Num 1, Num 3, Num 5]))
          (js_neg (tStatistic (independentTTest [Num 1, Num 3, Num 5] [Num 0, Num 2, Num 4])))
   \<and> tStatistic (independentTTest [Num 1, Num 3, Num 5] [Num 0, Num 2, Num 4]) = Num (1 / sqrt (8 / 3))
   \<and> js_seq (pValue (independentTTest [Num 0, Num 2, Num 4] [Num 0, Num 2, Num 4]))
            (pValue (independentTTest [Num 0, Num 2, Num 4] [Num 0, Num 2, Num 4]))"
proof -
  have a: "tStatistic (independentTTest [Num 0, Num 2, Num 4] [Num 1, Num 3, Num 5]) \<noteq> NaN"
    by (simp add: tStatistic_024_135)
  have b: "pValue (independentTTest [Num 0, Num 2, Num 4] [Num 0, Num 2, Num 4]) \<noteq> NaN"
    by (simp add: pValue_024)
  show ?thesis
    using C1_symmetry [of "[Num 0, Num 2, Num 4]" "[Num 1, Num 3, Num 5]"]
      C1_symmetry [of "[Num 1, Num 3, Num 5]" "[Num 0, Num 2, Num 4]"]
      C1_symmetry [of "[Num 0, Num 2, Num 4]" "[Num 0, Num 2, Num 4]"] a b
    by (simp add: tStatistic_024_135)
qed

end
